theory Spec2Isabelle
  imports Main "HOL-Library.Sublist"
begin

section \<open>The process environment\<close>

text \<open>
  The variables of \<open>process.env\<close> that the sources read or that \<open>.env.example\<close> lists.
  A variable that is not set is \<open>None\<close>. JavaScript's \<open>x || d\<close> takes \<open>d\<close> when \<open>x\<close> is
  undefined or the empty string.
\<close>

record env =
  REDIS_URL :: "string option"
  JOB_ATTEMPTS :: "string option"
  JOB_TIMEOUT :: "string option"
  TEMP_DIR :: "string option"
  NODE_ENV :: "string option"
  max_file_size_mb :: string
    \<comment> \<open>the text of \<open>process.env.MAX_FILE_SIZE / 1024 / 1024\<close>, a floating-point quotient\<close>

definition or_default :: "string option \<Rightarrow> string \<Rightarrow> string" where
  "or_default v d = (case v of None \<Rightarrow> d | Some s \<Rightarrow> if s = [] then d else s)"

section \<open>Errors and the error handler (middleware/errorHandler.js)\<close>

text \<open>
  A thrown error is the object the handler inspects: its \<open>name\<close>, \<open>message\<close>, and the
  optional \<open>code\<close> (set by the upload library) and \<open>status\<close>.
\<close>

record js_error =
  err_name :: string
  err_message :: string
  err_code :: "string option"
  err_status :: "nat option"
  err_details :: "(string \<times> string) list"

definition ValidationError :: "string \<Rightarrow> js_error" where
  "ValidationError m =
     \<lparr>err_name = ''ValidationError'', err_message = m, err_code = None,
      err_status = None, err_details = []\<rparr>"

definition ConversionError :: "string \<Rightarrow> js_error" where
  "ConversionError m =
     \<lparr>err_name = ''ConversionError'', err_message = m, err_code = None,
      err_status = None, err_details = []\<rparr>"

definition JobNotFoundError :: "string \<Rightarrow> js_error" where
  "JobNotFoundError m =
     \<lparr>err_name = ''JobNotFoundError'', err_message = m, err_code = None,
      err_status = None, err_details = []\<rparr>"

definition TypeError :: "string \<Rightarrow> js_error" where
  "TypeError m =
     \<lparr>err_name = ''TypeError'', err_message = m, err_code = None,
      err_status = None, err_details = []\<rparr>"

definition RangeError :: "string \<Rightarrow> js_error" where
  "RangeError m =
     \<lparr>err_name = ''RangeError'', err_message = m, err_code = None,
      err_status = None, err_details = []\<rparr>"

section \<open>Jobs as the routes see them\<close>

text \<open>
  A property of a JavaScript object that may be undefined, null or hold a value. In a
  JSON body written by \<open>res.json\<close> a property that is undefined is left out, so as a
  field of a response \<open>Undefined\<close> reads: the body has no such field.
\<close>

datatype 'a js = Undefined | Null | Val 'a

record file_info =
  originalname :: string

record job_data =
  conv_type :: string
  data_file :: "file_info option"

record process_result =
  success :: bool
  result :: string

text \<open>
  The fields of a queue job that the routes read. \<open>job_state\<close> is what \<open>job.getState()\<close>
  answers, a string that the routes compare with \<open>'completed'\<close> and \<open>'failed'\<close>;
  \<open>returnvalue\<close> and \<open>failedReason\<close> are whatever the queue holds for the job,
  a value or none yet. Times are milliseconds since the epoch.
\<close>

record job =
  job_id :: string
  job_data :: job_data
  job_state :: string
  progress :: nat
  timestamp :: nat
  processedOn :: "nat option"
  finishedOn :: "nat option"
  returnvalue :: "process_result js"
  failedReason :: "string js"
  attemptsMade :: nat

section \<open>Responses\<close>

record status_json =
  st_jobId :: string
  st_state :: string
  st_progress :: nat
  st_createdAt :: nat
  st_processedAt :: "nat option"
  st_finishedAt :: "nat option"
  st_result :: "process_result js"
  st_error :: "string js"
  st_attemptsMade :: "nat option"

record job_summary =
  sm_jobId :: string
  sm_state :: string
  sm_progress :: nat
  sm_createdAt :: nat
  sm_type :: string
  sm_filename :: "string option"

record list_json =
  ls_jobs :: "job_summary list"
  ls_total :: nat
  ls_limit :: "int option"
  ls_offset :: "int option"

text \<open>
  The JSON bodies the job routes and the error handler write. \<open>ErrorJson e m extra\<close> is
  \<open>{error: e, message: m}\<close> followed by the further string fields \<open>extra\<close>.
\<close>

datatype body =
    ErrorJson string string "(string \<times> string) list"
  | ValidationJson string string "(string \<times> string) list" string
  | StatusJson status_json
  | DownloadJson string string "process_result js"
  | CancelJson bool string string
  | ListJson list_json

record response =
  status :: nat
  body :: body

definition errorHandler :: "env \<Rightarrow> js_error \<Rightarrow> response" where
  "errorHandler e err =
     (if err_code err = Some ''LIMIT_FILE_SIZE'' then
        \<lparr>status = 413,
         body = ErrorJson ''File too large''
                  (''Maximum file size is '' @ max_file_size_mb e @ ''MB'')
                  [(''code'', ''FILE_TOO_LARGE'')]\<rparr>
      else if err_code err = Some ''LIMIT_UNEXPECTED_FILE'' then
        \<lparr>status = 400,
         body = ErrorJson ''Invalid file'' ''Unexpected file field''
                  [(''code'', ''INVALID_FILE_FIELD'')]\<rparr>
      else if err_name err = ''ValidationError'' then
        \<lparr>status = 400,
         body = ValidationJson ''Validation failed'' (err_message err) (err_details err)
                  ''VALIDATION_ERROR''\<rparr>
      else if err_name err = ''ConversionError'' then
        \<lparr>status = 422,
         body = ErrorJson ''Conversion failed'' (err_message err)
                  [(''code'', ''CONVERSION_ERROR'')]\<rparr>
      else if err_name err = ''JobNotFoundError'' then
        \<lparr>status = 404,
         body = ErrorJson ''Job not found'' (err_message err)
                  [(''code'', ''JOB_NOT_FOUND'')]\<rparr>
      else
        \<lparr>status = (case err_status err of None \<Rightarrow> 500
                     | Some s \<Rightarrow> if s = 0 then 500 else s),
         body = ErrorJson ''Internal server error''
                  (if NODE_ENV e = Some ''production''
                   then ''An unexpected error occurred'' else err_message err)
                  [(''code'', ''INTERNAL_ERROR'')]\<rparr>)"

text \<open>
  Every route body runs inside \<open>try { ... } catch (error) { next(error) }\<close>: a thrown
  error goes to the error handler, which writes the response.
\<close>

definition catch_next :: "env \<Rightarrow> js_error + response \<Rightarrow> response" where
  "catch_next e r = (case r of Inl err \<Rightarrow> errorHandler e err | Inr resp \<Rightarrow> resp)"

section \<open>The queue store\<close>

text \<open>
  The Queue Store is the queue library and its backing service, a dependency whose code
  is not part of the sources; the routes call its \<open>getJob\<close>, \<open>remove\<close> and \<open>getJobs\<close>.
  The store is the collection of its job records.
\<close>

type_synonym queue = "job list"

text \<open>
  Modelled from the spec: \<open>getJob\<close> of the queue library, missing from the sources.
  Section 4.1 of the specification: \<open>get(id)\<close> answers the job with that id, or that
  there is none.
\<close>

definition getJob :: "queue \<Rightarrow> string \<Rightarrow> job option" where
  "getJob q jobId = find (\<lambda>j. job_id j = jobId) q"

text \<open>
  Modelled from the spec: \<open>job.remove()\<close> of the queue library, missing from the sources.
  Section 4.1 of the specification: \<open>remove(id)\<close> deletes the record.
\<close>

definition remove :: "queue \<Rightarrow> job \<Rightarrow> queue" where
  "remove q j = filter (\<lambda>k. job_id k \<noteq> job_id j) q"

text \<open>
  \<open>jobQueue\<close> is the module's global handle: null unless \<open>REDIS_URL\<close> is set and not
  empty when the module loads (routes/jobs.js, lines 7 to 9). \<open>stored\<close> is what the
  backing service holds.
\<close>

definition init_jobQueue :: "env \<Rightarrow> queue \<Rightarrow> queue option" where
  "init_jobQueue e stored =
     (case REDIS_URL e of None \<Rightarrow> None
      | Some u \<Rightarrow> if u = [] then None else Some stored)"

section \<open>The job routes (routes/jobs.js)\<close>

definition queue_unavailable :: response where
  "queue_unavailable =
     \<lparr>status = 503,
      body = ErrorJson ''Job queue not available''
               ''Async processing requires Redis connection'' []\<rparr>"

text \<open>
  \<open>new Date(t).toISOString()\<close> throws a RangeError for a time beyond the range of
  \<open>Date\<close>, 8.64e15 ms. Within the range the text it gives determines the instant, and
  the responses here carry the instant itself.
\<close>

definition max_time :: nat where
  "max_time = 8640000000000000"

definition toISOString :: "nat \<Rightarrow> js_error + nat" where
  "toISOString t = (if t \<le> max_time then Inr t else Inl (RangeError ''Invalid time value''))"

definition iso_or_null :: "nat option \<Rightarrow> js_error + nat option" where
  \<comment> \<open>\<open>t ? new Date(t).toISOString() : null\<close>\<close>
  "iso_or_null t =
     (case t of
        None \<Rightarrow> Inr None
      | Some n \<Rightarrow>
          if n = 0 then Inr None
          else (case toISOString n of Inl err \<Rightarrow> Inl err | Inr i \<Rightarrow> Inr (Some i)))"

text \<open>
  The response object of the status route: the literal first, whose three times may
  throw, then the fields set for a completed and for a failed job.
\<close>

definition status_of_job :: "job \<Rightarrow> js_error + status_json" where
  "status_of_job j =
     (case toISOString (timestamp j) of
        Inl err \<Rightarrow> Inl err
      | Inr created \<Rightarrow>
          (case iso_or_null (processedOn j) of
             Inl err \<Rightarrow> Inl err
           | Inr processed \<Rightarrow>
               (case iso_or_null (finishedOn j) of
                  Inl err \<Rightarrow> Inl err
                | Inr finished \<Rightarrow>
                    (let response =
                       \<lparr>st_jobId = job_id j, st_state = job_state j,
                        st_progress = progress j, st_createdAt = created,
                        st_processedAt = processed, st_finishedAt = finished,
                        st_result = Undefined, st_error = Undefined,
                        st_attemptsMade = None\<rparr>
                     in if job_state j = ''completed'' then
                          Inr (response\<lparr>st_result := returnvalue j\<rparr>)
                        else if job_state j = ''failed'' then
                          Inr (response\<lparr>st_error := failedReason j,
                                        st_attemptsMade := Some (attemptsMade j)\<rparr>)
                        else Inr response))))"

definition get_status :: "env \<Rightarrow> queue option \<Rightarrow> string \<Rightarrow> response" where
  "get_status e jobQueue jobId =
     (case jobQueue of
        None \<Rightarrow> queue_unavailable
      | Some q \<Rightarrow>
          catch_next e
            (case getJob q jobId of
               None \<Rightarrow> Inl (JobNotFoundError (''Job '' @ jobId @ '' not found''))
             | Some j \<Rightarrow>
                 (case status_of_job j of
                    Inl err \<Rightarrow> Inl err
                  | Inr r \<Rightarrow> Inr \<lparr>status = 200, body = StatusJson r\<rparr>)))"

definition get_download :: "env \<Rightarrow> queue option \<Rightarrow> string \<Rightarrow> response" where
  "get_download e jobQueue jobId =
     (case jobQueue of
        None \<Rightarrow> queue_unavailable
      | Some q \<Rightarrow>
          catch_next e
            (case getJob q jobId of
               None \<Rightarrow> Inl (JobNotFoundError (''Job '' @ jobId @ '' not found''))
             | Some j \<Rightarrow>
                 if job_state j \<noteq> ''completed'' then
                   Inr \<lparr>status = 400,
                        body = ErrorJson ''Job not ready''
                                 (''Job is in '' @ job_state j @ '' state'')
                                 [(''jobId'', jobId)]\<rparr>
                 else
                   Inr \<lparr>status = 200,
                        body = DownloadJson jobId
                                 ''File download endpoint - to be implemented''
                                 (returnvalue j)\<rparr>))"

text \<open>Cancelling changes the store, so the route returns the queue handle as well.\<close>

definition delete_job :: "env \<Rightarrow> queue option \<Rightarrow> string \<Rightarrow> response \<times> queue option" where
  "delete_job e jobQueue jobId =
     (case jobQueue of
        None \<Rightarrow> (queue_unavailable, jobQueue)
      | Some q \<Rightarrow>
          (case getJob q jobId of
             None \<Rightarrow>
               (catch_next e (Inl (JobNotFoundError (''Job '' @ jobId @ '' not found''))),
                jobQueue)
           | Some j \<Rightarrow>
               if job_state j = ''completed'' \<or> job_state j = ''failed'' then
                 (\<lparr>status = 400,
                   body = ErrorJson ''Cannot cancel job''
                            (''Job already '' @ job_state j) []\<rparr>,
                  jobQueue)
               else
                 (\<lparr>status = 200,
                   body = CancelJson True (''Job '' @ jobId @ '' cancelled'') jobId\<rparr>,
                  Some (remove q j))))"

section \<open>JavaScript numbers and strings in the list query\<close>

text \<open>
  Express hands a query parameter to the route as a string; the route's destructuring
  default (a number) applies only when the parameter is absent. \<open>+\<close> concatenates when
  either operand is a string, \<open>-\<close> converts both operands to numbers.
\<close>

datatype jsval = JNum int | JStr string

definition digit_in :: "nat \<Rightarrow> char \<Rightarrow> nat option" where
  "digit_in radix c =
     (let n = (of_char c :: nat)
      in if 48 \<le> n \<and> n \<le> 57 then Some (n - 48)
         else if radix = 16 \<and> 97 \<le> n \<and> n \<le> 102 then Some (n - 87)
         else if radix = 16 \<and> 65 \<le> n \<and> n \<le> 70 then Some (n - 55)
         else None)"

definition digits_value :: "nat \<Rightarrow> string \<Rightarrow> nat" where
  "digits_value radix s =
     fold (\<lambda>c a. case digit_in radix c of None \<Rightarrow> a | Some d \<Rightarrow> a * radix + d) s 0"

fun show_nat :: "nat \<Rightarrow> string" where
  "show_nat n =
     (if n < 10 then [char_of (48 + n)]
      else show_nat (n div 10) @ [char_of (48 + n mod 10)])"

declare show_nat.simps [simp del]

fun toString :: "jsval \<Rightarrow> string" where
  "toString (JNum i) = (if i < 0 then CHR ''-'' # show_nat (nat (- i)) else show_nat (nat i))"
| "toString (JStr s) = s"

fun js_plus :: "jsval \<Rightarrow> jsval \<Rightarrow> jsval" where
  "js_plus (JNum a) (JNum b) = JNum (a + b)"
| "js_plus a b = JStr (toString a @ toString b)"

text \<open>
  Conversion of a value to a number, followed for the strings that are a plain run of
  decimal digits. \<open>None\<close> stands for every other string: those JavaScript turns into
  NaN, and the signed, fractional, exponent, hexadecimal, blank and empty forms, which
  this development does not follow.
\<close>

fun toNumber :: "jsval \<Rightarrow> int option" where
  "toNumber (JNum i) = Some i"
| "toNumber (JStr s) =
     (if s \<noteq> [] \<and> list_all (\<lambda>c. digit_in 10 c \<noteq> None) s
      then Some (int (digits_value 10 s)) else None)"

definition js_minus :: "jsval \<Rightarrow> jsval \<Rightarrow> int option" where
  "js_minus a b =
     (case toNumber a of None \<Rightarrow> None
      | Some x \<Rightarrow> (case toNumber b of None \<Rightarrow> None | Some y \<Rightarrow> Some (x - y)))"

text \<open>
  \<open>parseInt\<close> with no radix: leading blanks, an optional sign, an optional \<open>0x\<close>, then
  the longest run of digits; \<open>None\<close> is NaN. Values are exact integers (the rounding of
  doubles beyond \<open>2^53\<close> is not modelled) and only ASCII blanks are skipped.
\<close>

definition is_blank :: "char \<Rightarrow> bool" where
  "is_blank c \<longleftrightarrow> (of_char c :: nat) \<in> {9, 10, 11, 12, 13, 32}"

definition parseInt :: "jsval \<Rightarrow> int option" where
  "parseInt v =
     (let t = dropWhile is_blank (toString v);
          neg = (case t of [] \<Rightarrow> False | c # _ \<Rightarrow> c = CHR ''-'');
          u = (case t of [] \<Rightarrow> []
               | c # r \<Rightarrow> if c = CHR ''-'' \<or> c = CHR ''+'' then r else t);
          hex = (case u of a # b # _ \<Rightarrow> a = CHR ''0'' \<and> (b = CHR ''x'' \<or> b = CHR ''X'')
                 | _ \<Rightarrow> False);
          radix = (if hex then 16 else 10);
          w = (if hex then drop 2 u else u);
          ds = takeWhile (\<lambda>c. digit_in radix c \<noteq> None) w
      in if ds = [] then None
         else Some ((if neg then - 1 else 1) * int (digits_value radix ds)))"

section \<open>Listing jobs (routes/jobs.js, \<open>router.get('/')\<close>)\<close>

text \<open>
  Modelled from the spec: \<open>getJobs\<close> of the queue library, missing from the sources,
  as the routes call it, for one state. Sections 4.1 and 5 of the specification: the
  records of one state are ordered by creation time, oldest first; the call answers
  those at the positions \<open>start\<close> to \<open>stop\<close>, both included, as the route's
  \<open>offset + limit - 1\<close> intends. The specification gives no meaning to a negative
  position: the answer is then \<open>None\<close>, outside the model.
\<close>

definition getJobs :: "queue \<Rightarrow> string \<Rightarrow> int \<Rightarrow> int \<Rightarrow> job list option" where
  "getJobs q s start stop =
     (if 0 \<le> start \<and> 0 \<le> stop then
        Some (take (nat (stop - start + 1))
               (drop (nat start) (sort_key timestamp (filter (\<lambda>j. job_state j = s) q))))
      else None)"

record list_query =
  q_state :: "string option"
  q_limit :: "string option"
  q_offset :: "string option"

definition states :: "string list" where
  "states = [''waiting'', ''active'', ''completed'', ''failed'', ''delayed'']"

text \<open>The loop \<open>for (const s of states)\<close>, with \<open>jobs\<close> as its accumulator.\<close>

fun all_states_jobs ::
  "queue \<Rightarrow> string list \<Rightarrow> int \<Rightarrow> int \<Rightarrow> job list \<Rightarrow> job list option" where
  "all_states_jobs q [] start stop jobs = Some jobs"
| "all_states_jobs q (s # ss) start stop jobs =
     (case getJobs q s start stop of
        None \<Rightarrow> None
      | Some stateJobs \<Rightarrow> all_states_jobs q ss start stop (jobs @ stateJobs))"

definition summary_of_job :: "job \<Rightarrow> job_summary" where
  "summary_of_job j =
     \<lparr>sm_jobId = job_id j, sm_state = job_state j, sm_progress = progress j,
      sm_createdAt = timestamp j, sm_type = conv_type (job_data j),
      sm_filename = map_option originalname (data_file (job_data j))\<rparr>"

text \<open>The entries of the listing; the creation time of each is rendered, which may throw.\<close>

fun summaries :: "job list \<Rightarrow> js_error + job_summary list" where
  "summaries [] = Inr []"
| "summaries (j # js) =
     (case toISOString (timestamp j) of
        Inl err \<Rightarrow> Inl err
      | Inr created \<Rightarrow>
          (case summaries js of
             Inl err \<Rightarrow> Inl err
           | Inr ss \<Rightarrow> Inr (summary_of_job j # ss)))"

text \<open>
  The answer is \<open>None\<close> when the request lies outside the model: a limit or offset
  whose conversion to a number is not followed above, or a negative position.
\<close>

definition list_jobs :: "env \<Rightarrow> queue option \<Rightarrow> list_query \<Rightarrow> response option" where
  "list_jobs e jobQueue qry =
     (case jobQueue of
        None \<Rightarrow> Some queue_unavailable
      | Some q \<Rightarrow>
          (let state = (case q_state qry of None \<Rightarrow> ''all'' | Some s \<Rightarrow> s);
               limit = (case q_limit qry of None \<Rightarrow> JNum 20 | Some s \<Rightarrow> JStr s);
               offset = (case q_offset qry of None \<Rightarrow> JNum 0 | Some s \<Rightarrow> JStr s);
               found =
                 (case toNumber offset of
                    None \<Rightarrow> None
                  | Some start \<Rightarrow>
                      (case js_minus (js_plus offset limit) (JNum 1) of
                         None \<Rightarrow> None
                       | Some stop \<Rightarrow>
                           if state = ''all'' then
                             all_states_jobs q states start stop []
                           else getJobs q state start stop))
           in map_option
                (\<lambda>jobs.
                   catch_next e
                     (case summaries jobs of
                        Inl err \<Rightarrow> Inl err
                      | Inr jobList \<Rightarrow>
                          Inr \<lparr>status = 200,
                               body = ListJson
                                 \<lparr>ls_jobs = jobList, ls_total = length jobs,
                                  ls_limit = parseInt limit,
                                  ls_offset = parseInt offset\<rparr>\<rparr>))
                found))"


text \<open>A body that reports an error: it holds no job, no result and no listing.\<close>

fun is_error_body :: "body \<Rightarrow> bool" where
  "is_error_body (ErrorJson err msg extra) = True"
| "is_error_body (ValidationJson err msg details c) = True"
| "is_error_body b = False"

section \<open>A store that cannot be reached\<close>

text \<open>
  A queue handle exists as soon as \<open>REDIS_URL\<close> is set, whether or not the backing
  service answers. \<open>Reachable q\<close> is a handle whose calls succeed on the records \<open>q\<close>;
  \<open>Unreachable err\<close> is a handle whose calls reject with the error \<open>err\<close> of the
  queue library. Each route passes its guard with such a handle, and its first call on
  the store (\<open>getJob\<close>, or \<open>getJobs\<close> in the listing) rejects inside \<open>try\<close>. A call that
  never settles gives no response at all and has no place in these functions.
\<close>

datatype service = Reachable queue | Unreachable js_error

definition status_route :: "env \<Rightarrow> service option \<Rightarrow> string \<Rightarrow> response" where
  "status_route e jobQueue jobId =
     (case jobQueue of
        None \<Rightarrow> get_status e None jobId
      | Some (Reachable q) \<Rightarrow> get_status e (Some q) jobId
      | Some (Unreachable err) \<Rightarrow> catch_next e (Inl err))"

definition download_route :: "env \<Rightarrow> service option \<Rightarrow> string \<Rightarrow> response" where
  "download_route e jobQueue jobId =
     (case jobQueue of
        None \<Rightarrow> get_download e None jobId
      | Some (Reachable q) \<Rightarrow> get_download e (Some q) jobId
      | Some (Unreachable err) \<Rightarrow> catch_next e (Inl err))"

definition cancel_route :: "env \<Rightarrow> service option \<Rightarrow> string \<Rightarrow> response \<times> service option" where
  "cancel_route e jobQueue jobId =
     (case jobQueue of
        None \<Rightarrow> (fst (delete_job e None jobId), None)
      | Some (Reachable q) \<Rightarrow>
          (case delete_job e (Some q) jobId of
             (resp, jq) \<Rightarrow> (resp, map_option Reachable jq))
      | Some (Unreachable err) \<Rightarrow> (catch_next e (Inl err), jobQueue))"

definition list_route :: "env \<Rightarrow> service option \<Rightarrow> list_query \<Rightarrow> response option" where
  "list_route e jobQueue qry =
     (case jobQueue of
        None \<Rightarrow> list_jobs e None qry
      | Some (Reachable q) \<Rightarrow> list_jobs e (Some q) qry
      | Some (Unreachable err) \<Rightarrow> Some (catch_next e (Inl err)))"

section \<open>The router's table\<close>

text \<open>
  The four routes the module registers, in their order. A path is the list of its
  segments below the mount point \<open>/api/jobs\<close>; a parameter matches any one segment, a
  literal matches without regard to letter case (the framework's default), and a
  \<open>get\<close> route also answers \<open>HEAD\<close>. A request that matches no route is passed on by
  the router (the framework then answers it as an unknown route).
\<close>

datatype http_method = GET | HEAD | POST | PUT | PATCH | DELETE

record request =
  req_method :: http_method
  req_path :: "string list"
  req_query :: list_query
  req_body :: "(string \<times> string) list"

definition lower :: "string \<Rightarrow> string" where
  "lower s =
     map (\<lambda>c. let n = (of_char c :: nat) in if 65 \<le> n \<and> n \<le> 90 then char_of (n + 32) else c) s"

datatype route = StatusRoute string | DownloadRoute string | CancelRoute string | ListRoute

definition route_of :: "http_method \<Rightarrow> string list \<Rightarrow> route option" where
  "route_of m p =
     (case p of
        [jobId, seg] \<Rightarrow>
          if (m = GET \<or> m = HEAD) \<and> lower seg = ''status'' then Some (StatusRoute jobId)
          else if (m = GET \<or> m = HEAD) \<and> lower seg = ''download'' then Some (DownloadRoute jobId)
          else None
      | [jobId] \<Rightarrow> if m = DELETE then Some (CancelRoute jobId) else None
      | [] \<Rightarrow> if m = GET \<or> m = HEAD then Some ListRoute else None
      | _ \<Rightarrow> None)"

datatype routed = NotRouted | Routed "response option" "queue option"

definition jobs_router :: "env \<Rightarrow> queue option \<Rightarrow> request \<Rightarrow> routed" where
  "jobs_router e jobQueue req =
     (case route_of (req_method req) (req_path req) of
        None \<Rightarrow> NotRouted
      | Some (StatusRoute jobId) \<Rightarrow> Routed (Some (get_status e jobQueue jobId)) jobQueue
      | Some (DownloadRoute jobId) \<Rightarrow> Routed (Some (get_download e jobQueue jobId)) jobQueue
      | Some (CancelRoute jobId) \<Rightarrow>
          (case delete_job e jobQueue jobId of (resp, jq) \<Rightarrow> Routed (Some resp) jq)
      | Some ListRoute \<Rightarrow> Routed (list_jobs e jobQueue (req_query req)) jobQueue)"

section \<open>The queue's options and the job processor (routes/jobs.js, lines 8 to 36)\<close>

record backoff_options =
  backoff_type :: string
  backoff_delay :: nat

record job_options =
  attempts :: int
  backoff :: backoff_options
  removeOnComplete :: bool
  removeOnFail :: bool

definition defaultJobOptions :: "env \<Rightarrow> job_options" where
  "defaultJobOptions e =
     \<lparr>attempts =
        (case JOB_ATTEMPTS e of
           None \<Rightarrow> 3
         | Some s \<Rightarrow> (case parseInt (JStr s) of
                        None \<Rightarrow> 3
                      | Some n \<Rightarrow> if n = 0 then 3 else n)),
      backoff = \<lparr>backoff_type = ''exponential'', backoff_delay = 2000\<rparr>,
      removeOnComplete = False, removeOnFail = False\<rparr>"

text \<open>
  One run of the processor registered for \<open>convert\<close> jobs: the time it waits before it
  settles (the simulated processing, \<open>setTimeout(resolve, 2000)\<close>) and how it settles.
  It reads the original name of the job's file, which throws when the job data carries
  no file.
\<close>

record execution =
  elapsed_ms :: nat
  outcome :: "js_error + process_result"

definition process_convert :: "job \<Rightarrow> execution" where
  "process_convert j =
     \<lparr>elapsed_ms = 2000,
      outcome =
        (case data_file (job_data j) of
           None \<Rightarrow> Inl (TypeError ''Cannot read properties of undefined'')
         | Some f \<Rightarrow>
             Inr \<lparr>success = True,
                  result = ''Processed '' @ conv_type (job_data j) @ '' conversion for ''
                             @ originalname f\<rparr>)\<rparr>"

section \<open>Uploaded files and their cleanup (middleware/fileUpload.js, routes/convert.js, routes/ocr.js)\<close>

text \<open>
  The file system as far as the handlers use it: the paths that exist, and those among
  them whose removal the system refuses. \<open>unlink\<close> fails on a path that does not exist
  and on one it may not remove.
\<close>

record filesystem =
  files :: "string set"
  undeletable :: "string set"

definition unlink :: "filesystem \<Rightarrow> string \<Rightarrow> js_error + filesystem" where
  "unlink fs p =
     (if p \<notin> files fs then
        Inl \<lparr>err_name = ''Error'', err_message = ''ENOENT: no such file or directory'',
             err_code = Some ''ENOENT'', err_status = None, err_details = []\<rparr>
      else if p \<in> undeletable fs then
        Inl \<lparr>err_name = ''Error'', err_message = ''EPERM: operation not permitted'',
             err_code = Some ''EPERM'', err_status = None, err_details = []\<rparr>
      else Inr (fs\<lparr>files := files fs - {p}\<rparr>))"

definition temp_dir :: "env \<Rightarrow> string" where
  "temp_dir e = or_default (TEMP_DIR e) ''/tmp/document-processing''"

text \<open>
  \<open>cleanupFile\<close>: the guarded \<open>unlink\<close> inside \<open>try\<close>, and the \<open>catch\<close> that only logs.
  The second component tells whether \<open>unlink\<close> was called.
\<close>

definition cleanupFile_try :: "env \<Rightarrow> filesystem \<Rightarrow> string \<Rightarrow> (js_error + filesystem) \<times> bool" where
  "cleanupFile_try e fs filePath =
     (if filePath \<noteq> [] \<and> prefix (temp_dir e) filePath
      then (unlink fs filePath, True) else (Inr fs, False))"

definition cleanupFile :: "env \<Rightarrow> filesystem \<Rightarrow> string \<Rightarrow> filesystem" where
  "cleanupFile e fs filePath =
     (case fst (cleanupFile_try e fs filePath) of Inl err \<Rightarrow> fs | Inr fs' \<Rightarrow> fs')"

record upload =
  path :: string
  upload_originalname :: string

text \<open>
  Where an upload is stored (middleware/fileUpload.js, lines 8 to 32): the storage's
  \<open>destination\<close> is the temporary directory as the environment names it, its
  \<open>filename\<close> is a fresh identifier, the time and the extension of the original name,
  and the upload library stores the file at \<open>path.join(destination, filename)\<close>, which
  is the upload's \<open>path\<close>. \<open>path.join\<close> and \<open>path.extname\<close> are those of the
  platform for POSIX paths: the join puts a slash between its parts and normalises the
  result (empty and \<open>.\<close> segments go, \<open>..\<close> takes back a segment).
\<close>

fun split_slash :: "string \<Rightarrow> string list" where
  "split_slash [] = [[]]"
| "split_slash (c # cs) =
     (if c = CHR ''/'' then [] # split_slash cs
      else (case split_slash cs of [] \<Rightarrow> [[c]] | s # ss \<Rightarrow> (c # s) # ss))"

fun normalize_segments :: "bool \<Rightarrow> string list \<Rightarrow> string list \<Rightarrow> string list" where
  "normalize_segments absolute kept [] = rev kept"
| "normalize_segments absolute kept (s # ss) =
     (if s = [] \<or> s = ''.'' then normalize_segments absolute kept ss
      else if s = ''..'' then
        (case kept of
           [] \<Rightarrow> if absolute then normalize_segments absolute [] ss
                 else normalize_segments absolute [s] ss
         | k # ks \<Rightarrow> if k = ''..'' then normalize_segments absolute (s # kept) ss
                     else normalize_segments absolute ks ss)
      else normalize_segments absolute (s # kept) ss)"

fun join_slash :: "string list \<Rightarrow> string" where
  "join_slash [] = []"
| "join_slash [s] = s"
| "join_slash (s # t # ss) = s @ CHR ''/'' # join_slash (t # ss)"

definition normalize :: "string \<Rightarrow> string" where
  "normalize p =
     (if p = [] then ''.''
      else
        (let absolute = (hd p = CHR ''/'');
             trailing = (last p = CHR ''/'');
             inner = join_slash (normalize_segments absolute [] (split_slash p))
         in if inner = [] then (if absolute then ''/'' else if trailing then ''./'' else ''.'')
            else (if absolute then ''/'' else []) @ inner @ (if trailing then ''/'' else [])))"

definition path_join :: "string \<Rightarrow> string \<Rightarrow> string" where
  "path_join a b =
     (if a = [] \<and> b = [] then ''.''
      else if a = [] then normalize b
      else if b = [] then normalize a
      else normalize (a @ CHR ''/'' # b))"

definition basename_of :: "string \<Rightarrow> string" where
  "basename_of p =
     rev (takeWhile (\<lambda>c. c \<noteq> CHR ''/'') (dropWhile (\<lambda>c. c = CHR ''/'') (rev p)))"

definition extname :: "string \<Rightarrow> string" where
  "extname p =
     (let b = basename_of p;
          after = takeWhile (\<lambda>c. c \<noteq> CHR ''.'') (rev b)
      in if CHR ''.'' \<notin> set b then []
         else if Suc (length after) = length b then []
         else if b = ''..'' then []
         else CHR ''.'' # rev after)"

definition storage_filename :: "string \<Rightarrow> nat \<Rightarrow> string \<Rightarrow> string" where
  \<comment> \<open>the identifier \<open>uuidv4()\<close>, the time \<open>Date.now()\<close>, the original name\<close>
  "storage_filename uuid now original = uuid @ ''-'' @ show_nat now @ extname original"

definition stored_upload :: "env \<Rightarrow> string \<Rightarrow> nat \<Rightarrow> string \<Rightarrow> upload" where
  "stored_upload e uuid now original =
     \<lparr>path = path_join (temp_dir e) (storage_filename uuid now original),
      upload_originalname = original\<rparr>"

text \<open>
  The seven routes of routes/convert.js and the two upload routes of routes/ocr.js are
  one handler, each with its own converter and its own way of writing the result:
  \<open>try\<close> (no file is a validation error; convert; write the response), \<open>catch\<close> (pass
  the error to the error handler), \<open>finally\<close> (clean up the uploaded file, if any).
  The converter and the writing of the response may both throw, and the converter may
  change the file system.
\<close>

definition upload_try ::
  "(filesystem \<Rightarrow> upload \<Rightarrow> (js_error + 'r) \<times> filesystem) \<Rightarrow>
   (upload \<Rightarrow> 'r \<Rightarrow> js_error + 'a) \<Rightarrow> string \<Rightarrow>
   filesystem \<Rightarrow> upload option \<Rightarrow> (js_error + 'a) \<times> filesystem" where
  "upload_try convert respond no_file fs file =
     (case file of
        None \<Rightarrow> (Inl (ValidationError no_file), fs)
      | Some f \<Rightarrow>
          (case convert fs f of
             (Inl err, fs1) \<Rightarrow> (Inl err, fs1)
           | (Inr r, fs1) \<Rightarrow> (respond f r, fs1)))"

text \<open>
  The response is the one the route writes on success, or the error handler's. The
  result type of the handler is a sum so that both fit without a shared body type:
  \<open>Inl\<close> is the error handler's response, \<open>Inr\<close> the route's own.
\<close>

definition upload_route ::
  "env \<Rightarrow> (filesystem \<Rightarrow> upload \<Rightarrow> (js_error + 'r) \<times> filesystem) \<Rightarrow>
   (upload \<Rightarrow> 'r \<Rightarrow> js_error + 'a) \<Rightarrow> string \<Rightarrow>
   filesystem \<Rightarrow> upload option \<Rightarrow> (response + 'a) \<times> filesystem" where
  "upload_route e convert respond no_file fs file =
     (case upload_try convert respond no_file fs file of
        (r, fs1) \<Rightarrow>
          ((case r of Inl err \<Rightarrow> Inl (errorHandler e err) | Inr a \<Rightarrow> Inr a),
           (case file of None \<Rightarrow> fs1 | Some f \<Rightarrow> cleanupFile e fs1 (path f))))"

section \<open>Sample data\<close>

text \<open>A job record, an environment and an error of the queue library for the concrete instances below.\<close>

definition sample_job :: "nat \<Rightarrow> string \<Rightarrow> job" where
  "sample_job i s =
     \<lparr>job_id = show_nat i,
      job_data = \<lparr>conv_type = ''excel-to-csv'',
                  data_file = Some \<lparr>originalname = ''a.xlsx''\<rparr>\<rparr>,
      job_state = s, progress = 0, timestamp = 1000 + i,
      processedOn = None, finishedOn = None, returnvalue = Null,
      failedReason = Undefined, attemptsMade = 0\<rparr>"

definition sample_env :: env where
  "sample_env =
     \<lparr>REDIS_URL = Some ''redis://localhost:6379'', JOB_ATTEMPTS = None,
      JOB_TIMEOUT = Some ''1000'', TEMP_DIR = None, NODE_ENV = None,
      max_file_size_mb = ''50''\<rparr>"

definition connection_refused :: js_error where
  "connection_refused =
     \<lparr>err_name = ''Error'', err_message = ''connect ECONNREFUSED 127.0.0.1:6379'',
      err_code = Some ''ECONNREFUSED'', err_status = None, err_details = []\<rparr>"

section \<open>Facts about the store and the error handler\<close>

lemma getJob_id: "getJob q jobId = Some j \<Longrightarrow> job_id j = jobId"
  by (auto simp: getJob_def find_Some_iff)

lemma getJob_remove: "getJob (remove q j) (job_id j) = None"
  by (simp add: getJob_def remove_def find_None_iff)

lemma set_remove: "set (remove q j) \<subseteq> set q"
  by (auto simp: remove_def)

lemma errorHandler_JobNotFound:
  "errorHandler e (JobNotFoundError m) =
     \<lparr>status = 404, body = ErrorJson ''Job not found'' m [(''code'', ''JOB_NOT_FOUND'')]\<rparr>"
  by (simp add: errorHandler_def JobNotFoundError_def)

lemma init_jobQueue_None:
  "init_jobQueue e stored = None \<longleftrightarrow> REDIS_URL e = None \<or> REDIS_URL e = Some []"
  by (simp add: init_jobQueue_def split: option.splits)

section \<open>Cancelling\<close>

text \<open>
  C2. A job that is completed or failed cannot be cancelled: the route answers 400 and
  the store is as it was. Cancelling a waiting job answers 200 and removes its record,
  after which the status query for the same id answers 404.
\<close>

theorem cancel_job:
  assumes "getJob q jobId = Some j"
  shows "(job_state j = ''completed'' \<or> job_state j = ''failed'' \<longrightarrow>
            fst (delete_job e (Some q) jobId) =
              \<lparr>status = 400,
               body = ErrorJson ''Cannot cancel job''
                        (''Job already '' @ job_state j) []\<rparr> \<and>
            snd (delete_job e (Some q) jobId) = Some q) \<and>
         (job_state j = ''waiting'' \<longrightarrow>
            (\<exists>q'. delete_job e (Some q) jobId =
                    (\<lparr>status = 200,
                      body = CancelJson True (''Job '' @ jobId @ '' cancelled'') jobId\<rparr>,
                     Some q') \<and>
                  getJob q' jobId = None \<and>
                  status (get_status e (Some q') jobId) = 404))"
proof -
  from assms have id: "job_id j = jobId" by (rule getJob_id)
  have gone: "getJob (remove q j) jobId = None"
    using getJob_remove [of q j] id by simp
  have nf: "status (get_status e (Some (remove q j)) jobId) = 404"
    by (simp add: get_status_def gone catch_next_def errorHandler_JobNotFound)
  show ?thesis
    using assms gone nf by (auto simp: delete_job_def)
qed

theorem cancel_job_witness:
  "getJob [sample_job 1 ''waiting'', sample_job 2 ''completed''] ''2'' = Some (sample_job 2 ''completed'') \<and>
   status (fst (delete_job sample_env
      (Some [sample_job 1 ''waiting'', sample_job 2 ''completed'']) ''2'')) = 400 \<and>
   snd (delete_job sample_env (Some [sample_job 1 ''waiting'', sample_job 2 ''completed'']) ''2'') =
     Some [sample_job 1 ''waiting'', sample_job 2 ''completed''] \<and>
   getJob [sample_job 1 ''waiting'', sample_job 2 ''completed''] ''1'' = Some (sample_job 1 ''waiting'') \<and>
   (\<exists>q'. snd (delete_job sample_env
             (Some [sample_job 1 ''waiting'', sample_job 2 ''completed'']) ''1'') = Some q' \<and>
         getJob q' ''1'' = None \<and>
         status (get_status sample_env (Some q') ''1'') = 404)"
proof -
  let ?q = "[sample_job 1 ''waiting'', sample_job 2 ''completed'']"
  have g2: "getJob ?q ''2'' = Some (sample_job 2 ''completed'')" by code_simp
  have g1: "getJob ?q ''1'' = Some (sample_job 1 ''waiting'')" by code_simp
  have s2: "job_state (sample_job 2 ''completed'') = ''completed''" by (simp add: sample_job_def)
  have s1: "job_state (sample_job 1 ''waiting'') = ''waiting''" by (simp add: sample_job_def)
  from cancel_job [OF g2, of sample_env] s2
  have a: "status (fst (delete_job sample_env (Some ?q) ''2'')) = 400 \<and>
           snd (delete_job sample_env (Some ?q) ''2'') = Some ?q"
    by simp
  from cancel_job [OF g1, of sample_env] s1
  have b: "\<exists>q'. snd (delete_job sample_env (Some ?q) ''1'') = Some q' \<and>
             getJob q' ''1'' = None \<and> status (get_status sample_env (Some q') ''1'') = 404"
    by auto
  from g2 g1 a b show ?thesis by blast
qed

section \<open>Downloading\<close>

text \<open>
  C3. With the queue present, the download route answers 404 for an id the store does
  not know, 400 for a job in any state other than completed, and for a completed job
  200 with the job's return value; no answer other than the last carries a result.
\<close>

theorem download_result:
  assumes "jobQueue = Some q"
  shows "(getJob q jobId = None \<longrightarrow>
            get_download e jobQueue jobId =
              \<lparr>status = 404,
               body = ErrorJson ''Job not found'' (''Job '' @ jobId @ '' not found'')
                        [(''code'', ''JOB_NOT_FOUND'')]\<rparr>) \<and>
         (\<forall>j. getJob q jobId = Some j \<longrightarrow>
            (if job_state j = ''completed''
             then get_download e jobQueue jobId =
                    \<lparr>status = 200,
                     body = DownloadJson jobId ''File download endpoint - to be implemented''
                              (returnvalue j)\<rparr>
             else get_download e jobQueue jobId =
                    \<lparr>status = 400,
                     body = ErrorJson ''Job not ready''
                              (''Job is in '' @ job_state j @ '' state'')
                              [(''jobId'', jobId)]\<rparr>))"
  using assms
  by (auto simp: get_download_def catch_next_def errorHandler_JobNotFound)

theorem download_result_witness:
  "status (get_download sample_env (Some [sample_job 1 ''waiting'', sample_job 2 ''completed'']) ''3'')
     = 404 \<and>
   status (get_download sample_env (Some [sample_job 1 ''waiting'', sample_job 2 ''completed'']) ''1'')
     = 400 \<and>
   get_download sample_env (Some [sample_job 1 ''waiting'', sample_job 2 ''completed'']) ''2'' =
     \<lparr>status = 200,
      body = DownloadJson ''2'' ''File download endpoint - to be implemented''
               (returnvalue (sample_job 2 ''completed''))\<rparr>"
proof -
  let ?q = "[sample_job 1 ''waiting'', sample_job 2 ''completed'']"
  have g3: "getJob ?q ''3'' = None" by code_simp
  have g2: "getJob ?q ''2'' = Some (sample_job 2 ''completed'')" by code_simp
  have g1: "getJob ?q ''1'' = Some (sample_job 1 ''waiting'')" by code_simp
  have s2: "job_state (sample_job 2 ''completed'') = ''completed''" by (simp add: sample_job_def)
  have s1: "job_state (sample_job 1 ''waiting'') \<noteq> ''completed''" by (simp add: sample_job_def)
  note d = download_result [OF refl, of ?q _ sample_env]
  from d [of "''3''"] g3
  have a: "status (get_download sample_env (Some ?q) ''3'') = 404" by simp
  from d [of "''1''"] g1 s1
  have b: "status (get_download sample_env (Some ?q) ''1'') = 400" by simp
  from d [of "''2''"] g2 s2
  have c: "get_download sample_env (Some ?q) ''2'' =
     \<lparr>status = 200,
      body = DownloadJson ''2'' ''File download endpoint - to be implemented''
               (returnvalue (sample_job 2 ''completed''))\<rparr>" by simp
  from a b c show ?thesis by blast
qed

section \<open>The status query\<close>








section \<open>The absent and the unreachable queue\<close>

lemma errorHandler_is_error: "is_error_body (body (errorHandler e err))"
  by (simp add: errorHandler_def)

lemma errorHandler_not_unavailable: "errorHandler e err \<noteq> queue_unavailable"
  by (simp add: errorHandler_def queue_unavailable_def)

lemma errorHandler_default:
  "err_code err \<noteq> Some ''LIMIT_FILE_SIZE'' \<Longrightarrow>
   err_code err \<noteq> Some ''LIMIT_UNEXPECTED_FILE'' \<Longrightarrow>
   err_name err \<noteq> ''ValidationError'' \<Longrightarrow>
   err_name err \<noteq> ''ConversionError'' \<Longrightarrow>
   err_name err \<noteq> ''JobNotFoundError'' \<Longrightarrow>
   errorHandler e err =
     \<lparr>status = (case err_status err of None \<Rightarrow> 500 | Some s \<Rightarrow> if s = 0 then 500 else s),
      body = ErrorJson ''Internal server error''
               (if NODE_ENV e = Some ''production''
                then ''An unexpected error occurred'' else err_message err)
               [(''code'', ''INTERNAL_ERROR'')]\<rparr>"
  by (simp add: errorHandler_def)

lemma get_status_not_unavailable: "get_status e (Some q) jobId \<noteq> queue_unavailable"
  using errorHandler_not_unavailable [of e]
  by (auto simp: get_status_def catch_next_def queue_unavailable_def
      split: option.splits sum.splits)

lemma get_download_not_unavailable: "get_download e (Some q) jobId \<noteq> queue_unavailable"
  using errorHandler_not_unavailable [of e]
  by (auto simp: get_download_def catch_next_def queue_unavailable_def
      split: option.splits)

lemma delete_job_not_unavailable: "fst (delete_job e (Some q) jobId) \<noteq> queue_unavailable"
  using errorHandler_not_unavailable [of e]
  by (auto simp: delete_job_def catch_next_def queue_unavailable_def
      split: option.splits)

lemma list_jobs_not_unavailable: "list_jobs e (Some q) qry \<noteq> Some queue_unavailable"
  using errorHandler_not_unavailable [of e]
  by (auto simp: list_jobs_def catch_next_def queue_unavailable_def Let_def
      split: option.splits sum.splits)

lemma cancel_route_fst:
  "fst (cancel_route e (Some (Reachable q)) jobId) = fst (delete_job e (Some q) jobId)"
  by (simp add: cancel_route_def split: prod.splits)

text \<open>
  C5, as the claim states it, fails: with a queue handle whose backing service refuses
  the connection, the status query is answered by the error handler with 500, not 503.
\<close>

theorem unreachable_counterexample:
  "status_route sample_env (Some (Unreachable connection_refused)) ''1'' =
     \<lparr>status = 500,
      body = ErrorJson ''Internal server error'' ''connect ECONNREFUSED 127.0.0.1:6379''
               [(''code'', ''INTERNAL_ERROR'')]\<rparr>"
  by (simp add: status_route_def catch_next_def errorHandler_def connection_refused_def
      sample_env_def)

text \<open>
  C5, amended. When the module holds no queue handle (\<open>REDIS_URL\<close> unset or empty when
  it loads), the status, download, cancel and list operations each answer 503 with one
  and the same body, which no operation gives when a handle is present. When a handle is
  present and the store's call fails, the operation answers what the error handler makes
  of the error: for an error that is none of the handler's named kinds, the error's own
  status or else 500, with the body of an internal server error. In both cases the
  answer is an error body, cancel leaves the handle as it was, and no conversion is run:
  the job routes call none.
\<close>

theorem service_unavailable:
  "status_route e None jobId = queue_unavailable \<and>
   download_route e None jobId = queue_unavailable \<and>
   cancel_route e None jobId = (queue_unavailable, None) \<and>
   list_route e None qry = Some queue_unavailable \<and>
   queue_unavailable =
     \<lparr>status = 503,
      body = ErrorJson ''Job queue not available''
               ''Async processing requires Redis connection'' []\<rparr> \<and>
   status_route e (Some (Unreachable err)) jobId = errorHandler e err \<and>
   download_route e (Some (Unreachable err)) jobId = errorHandler e err \<and>
   cancel_route e (Some (Unreachable err)) jobId =
     (errorHandler e err, Some (Unreachable err)) \<and>
   list_route e (Some (Unreachable err)) qry = Some (errorHandler e err) \<and>
   (err_code err \<noteq> Some ''LIMIT_FILE_SIZE'' \<and>
    err_code err \<noteq> Some ''LIMIT_UNEXPECTED_FILE'' \<and>
    err_name err \<noteq> ''ValidationError'' \<and>
    err_name err \<noteq> ''ConversionError'' \<and>
    err_name err \<noteq> ''JobNotFoundError'' \<longrightarrow>
      errorHandler e err =
        \<lparr>status = (case err_status err of None \<Rightarrow> 500
                     | Some s \<Rightarrow> if s = 0 then 500 else s),
         body = ErrorJson ''Internal server error''
                  (if NODE_ENV e = Some ''production''
                   then ''An unexpected error occurred'' else err_message err)
                  [(''code'', ''INTERNAL_ERROR'')]\<rparr>) \<and>
   is_error_body (body queue_unavailable) \<and>
   is_error_body (body (errorHandler e err)) \<and>
   status_route e (Some h) jobId \<noteq> queue_unavailable \<and>
   download_route e (Some h) jobId \<noteq> queue_unavailable \<and>
   fst (cancel_route e (Some h) jobId) \<noteq> queue_unavailable \<and>
   list_route e (Some h) qry \<noteq> Some queue_unavailable"
proof -
  have absent:
    "status_route e None jobId = queue_unavailable"
    "download_route e None jobId = queue_unavailable"
    "cancel_route e None jobId = (queue_unavailable, None)"
    "list_route e None qry = Some queue_unavailable"
    by (simp_all add: status_route_def download_route_def cancel_route_def list_route_def
        get_status_def get_download_def delete_job_def list_jobs_def)
  have unreachable:
    "status_route e (Some (Unreachable err)) jobId = errorHandler e err"
    "download_route e (Some (Unreachable err)) jobId = errorHandler e err"
    "cancel_route e (Some (Unreachable err)) jobId =
       (errorHandler e err, Some (Unreachable err))"
    "list_route e (Some (Unreachable err)) qry = Some (errorHandler e err)"
    by (simp_all add: status_route_def download_route_def cancel_route_def list_route_def
        catch_next_def)
  have p1: "status_route e (Some h) jobId \<noteq> queue_unavailable"
    using get_status_not_unavailable [of e _ jobId] errorHandler_not_unavailable [of e]
    by (cases h) (simp_all add: status_route_def catch_next_def)
  have p2: "download_route e (Some h) jobId \<noteq> queue_unavailable"
    using get_download_not_unavailable [of e _ jobId] errorHandler_not_unavailable [of e]
    by (cases h) (simp_all add: download_route_def catch_next_def)
  have p3: "fst (cancel_route e (Some h) jobId) \<noteq> queue_unavailable"
    using delete_job_not_unavailable [of e _ jobId] errorHandler_not_unavailable [of e]
    by (cases h) (simp_all add: cancel_route_fst, simp add: cancel_route_def catch_next_def)
  have p4: "list_route e (Some h) qry \<noteq> Some queue_unavailable"
    using list_jobs_not_unavailable [of e _ qry] errorHandler_not_unavailable [of e]
    by (cases h) (simp_all add: list_route_def catch_next_def)
  have body503: "is_error_body (body queue_unavailable)"
    by (simp add: queue_unavailable_def)
  have q503: "queue_unavailable =
     \<lparr>status = 503,
      body = ErrorJson ''Job queue not available''
               ''Async processing requires Redis connection'' []\<rparr>"
    by (simp add: queue_unavailable_def)
  from absent unreachable p1 p2 p3 p4 body503 q503 errorHandler_is_error [of e err]
    errorHandler_default [of err e]
  show ?thesis by blast
qed

theorem service_unavailable_witness:
  "status_route sample_env None ''1'' = queue_unavailable \<and>
   status (status_route sample_env (Some (Unreachable connection_refused)) ''1'') = 500 \<and>
   status (download_route sample_env (Some (Unreachable connection_refused)) ''1'') = 500 \<and>
   status (fst (cancel_route sample_env (Some (Unreachable connection_refused)) ''1'')) = 500"
proof -
  have k: "err_code connection_refused \<noteq> Some ''LIMIT_FILE_SIZE'' \<and>
    err_code connection_refused \<noteq> Some ''LIMIT_UNEXPECTED_FILE'' \<and>
    err_name connection_refused \<noteq> ''ValidationError'' \<and>
    err_name connection_refused \<noteq> ''ConversionError'' \<and>
    err_name connection_refused \<noteq> ''JobNotFoundError''"
    by (simp add: connection_refused_def)
  have s: "err_status connection_refused = None"
    by (simp add: connection_refused_def)
  from service_unavailable [of sample_env "''1''" _ connection_refused] k s
  show ?thesis by simp
qed

section \<open>Listing\<close>

lemma all_states_jobs_Some:
  "0 \<le> start \<Longrightarrow> 0 \<le> stop \<Longrightarrow>
   all_states_jobs q ss start stop acc =
     Some (acc @ concat (map (\<lambda>s. take (nat (stop - start + 1))
               (drop (nat start) (sort_key timestamp (filter (\<lambda>j. job_state j = s) q)))) ss))"
  by (induction ss arbitrary: acc) (simp_all add: getJobs_def)

lemma parseInt_20: "parseInt (JNum 20) = Some 20"
  by code_simp

lemma parseInt_0: "parseInt (JNum 0) = Some 0"
  by code_simp

lemma summaries_in_range:
  "list_all (\<lambda>j. timestamp j \<le> max_time) jobs \<Longrightarrow>
   summaries jobs = Inr (map summary_of_job jobs)"
  by (induction jobs) (simp_all add: toISOString_def)

text \<open>
  With neither limit nor offset in the query, the listing of all states is the first
  twenty jobs of each state, one state after the other, in the order the store gives
  the jobs of a state (here oldest first, as the specification describes the store).
\<close>

lemma list_all_defaults:
  assumes "list_all (\<lambda>j. timestamp j \<le> max_time) q"
  shows "list_jobs e (Some q) \<lparr>q_state = None, q_limit = None, q_offset = None\<rparr> =
     Some \<lparr>status = 200,
           body = ListJson
             \<lparr>ls_jobs = map summary_of_job
                 (concat (map (\<lambda>s. take 20 (sort_key timestamp (filter (\<lambda>j. job_state j = s) q)))
                    states)),
              ls_total = length
                 (concat (map (\<lambda>s. take 20 (sort_key timestamp (filter (\<lambda>j. job_state j = s) q)))
                    states)),
              ls_limit = Some 20, ls_offset = Some 0\<rparr>\<rparr>"
proof -
  let ?found = "concat (map (\<lambda>s. take 20 (sort_key timestamp (filter (\<lambda>j. job_state j = s) q)))
                    states)"
  have "set ?found \<subseteq> set q"
    by (auto dest: in_set_takeD)
  with assms have "list_all (\<lambda>j. timestamp j \<le> max_time) ?found"
    unfolding list_all_iff by blast
  then have "summaries ?found = Inr (map summary_of_job ?found)"
    by (rule summaries_in_range)
  then show ?thesis
    by (simp add: list_jobs_def js_minus_def all_states_jobs_Some parseInt_20 parseInt_0
        catch_next_def del: all_states_jobs.simps)
qed

text \<open>
  With both parameters given in the query, the end of the window is the number the two
  strings spell when written one after the other, less one: the second page of twenty,
  \<open>offset=20&limit=20\<close>, asks the store for the positions 20 to 2019.
\<close>

lemma window_end_strings:
  "toNumber (JStr (off @ lim)) = Some n \<Longrightarrow>
   js_minus (js_plus (JStr off) (JStr lim)) (JNum 1) = Some (n - 1)"
  by (simp add: js_minus_def)

lemma window_end_second_page:
  "js_minus (js_plus (JStr ''20'') (JStr ''20'')) (JNum 1) = Some 2019"
  by code_simp

text \<open>
  C4. The query \<open>?state=all&offset=1&limit=1\<close> against seven waiting jobs. Both
  parameters reach the route as strings, so \<open>offset + limit - 1\<close> is \<open>"11" - 1 = 10\<close>
  and the window of each state is the positions 1 to 10: the answer holds six jobs,
  where the window of offset 1 and limit 1 holds one job of each state, five at most.
\<close>

theorem list_string_window:
  "list_jobs sample_env (Some (map (\<lambda>i. sample_job i ''waiting'') [0..<7]))
     \<lparr>q_state = Some ''all'', q_limit = Some ''1'', q_offset = Some ''1''\<rparr> =
   Some \<lparr>status = 200,
         body = ListJson
           \<lparr>ls_jobs = map (\<lambda>i. summary_of_job (sample_job i ''waiting'')) [1..<7],
            ls_total = 6, ls_limit = Some 1, ls_offset = Some 1\<rparr>\<rparr>"
proof -
  let ?q = "map (\<lambda>i. sample_job i ''waiting'') [0..<7]"
  let ?w = "map (\<lambda>i. sample_job i ''waiting'') [1..<7]"
  have stop: "js_minus (js_plus (JStr ''1'') (JStr ''1'')) (JNum 1) = Some 10"
    by code_simp
  have start: "toNumber (JStr ''1'') = Some 1"
    by code_simp
  have found: "all_states_jobs ?q states 1 10 [] = Some ?w"
    by code_simp
  have p: "parseInt (JStr ''1'') = Some 1"
    by code_simp
  have "list_all (\<lambda>j. timestamp j \<le> max_time) ?w"
    by (simp add: list_all_iff sample_job_def max_time_def)
  then have sums: "summaries ?w = Inr (map summary_of_job ?w)"
    by (rule summaries_in_range)
  have len: "length ?w = 6" by simp
  show ?thesis
    using stop start found p sums len unfolding list_jobs_def
    by (simp add: catch_next_def comp_def Let_def
        del: upt_Suc all_states_jobs.simps toNumber.simps js_plus.simps)
qed

section \<open>No route creates a job\<close>

text \<open>
  C7, as the claim states it, fails: a request to create a job of a type no converter
  handles is not answered by the jobs router at all, so it is not rejected with an
  error of its own.
\<close>

theorem enqueue_counterexample:
  "jobs_router sample_env (Some [])
     \<lparr>req_method = POST, req_path = [],
      req_query = \<lparr>q_state = None, q_limit = None, q_offset = None\<rparr>,
      req_body = [(''type'', ''no-such-type'')]\<rparr> = NotRouted"
  by (simp add: jobs_router_def route_of_def)

text \<open>
  C7, amended. The jobs router has no route that creates a job: every POST request,
  whatever its path and whatever type it declares, matches no route; and whatever
  request the router does answer, the store afterwards holds no record it did not hold
  before.
\<close>

theorem no_enqueue_route:
  "jobs_router e jobQueue (req\<lparr>req_method := POST\<rparr>) = NotRouted \<and>
   (\<forall>r jq. jobs_router e (Some q) req = Routed r jq \<longrightarrow>
      (\<exists>q'. jq = Some q' \<and> set q' \<subseteq> set q))"
proof
  show "jobs_router e jobQueue (req\<lparr>req_method := POST\<rparr>) = NotRouted"
    by (simp add: jobs_router_def route_of_def split: list.splits)
next
  show "\<forall>r jq. jobs_router e (Some q) req = Routed r jq \<longrightarrow>
      (\<exists>q'. jq = Some q' \<and> set q' \<subseteq> set q)"
    using set_remove
    by (auto simp: jobs_router_def delete_job_def
        split: option.splits route.splits prod.splits if_splits)
qed

theorem no_enqueue_route_witness:
  "jobs_router sample_env (Some [sample_job 1 ''waiting''])
     \<lparr>req_method = DELETE, req_path = [''1''],
      req_query = \<lparr>q_state = None, q_limit = None, q_offset = None\<rparr>,
      req_body = []\<rparr> =
     Routed (Some \<lparr>status = 200, body = CancelJson True ''Job 1 cancelled'' ''1''\<rparr>) (Some []) \<and>
   (\<exists>q'. Some [] = Some q' \<and> set q' \<subseteq> set [sample_job 1 ''waiting''])"
proof -
  have r: "jobs_router sample_env (Some [sample_job 1 ''waiting''])
     \<lparr>req_method = DELETE, req_path = [''1''],
      req_query = \<lparr>q_state = None, q_limit = None, q_offset = None\<rparr>,
      req_body = []\<rparr> =
     Routed (Some \<lparr>status = 200, body = CancelJson True ''Job 1 cancelled'' ''1''\<rparr>) (Some [])"
    by code_simp
  from no_enqueue_route [of sample_env None _ "[sample_job 1 ''waiting'']"] r
  show ?thesis by blast
qed

section \<open>No timeout on a job\<close>

text \<open>
  What the source fixes of the retry policy: with \<open>JOB_ATTEMPTS\<close> unset, three attempts
  and an exponential backoff with a delay of 2000 ms. The schedule computed from these
  options is the queue library's.
\<close>

lemma defaultJobOptions_unset:
  "JOB_ATTEMPTS e = None \<Longrightarrow>
   defaultJobOptions e =
     \<lparr>attempts = 3, backoff = \<lparr>backoff_type = ''exponential'', backoff_delay = 2000\<rparr>,
      removeOnComplete = False, removeOnFail = False\<rparr>"
  by (simp add: defaultJobOptions_def)

text \<open>
  C8, as the claim states it, fails: with \<open>JOB_TIMEOUT\<close> set to 1000 ms, the run of a job
  lasts 2000 ms and ends in success, not in a failure.
\<close>

theorem timeout_counterexample:
  "JOB_TIMEOUT sample_env = Some ''1000'' \<and>
   elapsed_ms (process_convert (sample_job 1 ''active'')) = 2000 \<and>
   outcome (process_convert (sample_job 1 ''active'')) =
     Inr \<lparr>success = True, result = ''Processed excel-to-csv conversion for a.xlsx''\<rparr>"
  by (simp add: sample_env_def process_convert_def sample_job_def)

text \<open>
  C8, amended. No timeout bounds the run of a job: the processor calls no converter,
  waits its fixed 2000 ms and then succeeds, failing only when the job's data carries no
  file; and the options the queue is created with do not depend on \<open>JOB_TIMEOUT\<close>.
\<close>

theorem no_timeout:
  "elapsed_ms (process_convert j) = 2000 \<and>
   (isl (outcome (process_convert j)) \<longleftrightarrow> data_file (job_data j) = None) \<and>
   defaultJobOptions (e\<lparr>JOB_TIMEOUT := t\<rparr>) = defaultJobOptions e"
  by (simp add: process_convert_def defaultJobOptions_def split: option.splits)

section \<open>Cleaning up the uploaded file\<close>

lemma temp_dir_nonempty: "temp_dir e \<noteq> []"
  by (simp add: temp_dir_def or_default_def split: option.splits)

lemma prefix_temp_dir_nonempty: "prefix (temp_dir e) p \<Longrightarrow> p \<noteq> []"
  using temp_dir_nonempty [of e] by auto

text \<open>
  What the cleanup does: a path that starts with the name of the temporary directory is
  removed if the system allows it; any other path, and a removal that fails, leave the
  file system as it was; and the response of an upload route is the one its \<open>try\<close> and
  \<open>catch\<close> blocks determine, whatever the cleanup does.
\<close>

lemma cleanupFile_deletes:
  "prefix (temp_dir e) p \<Longrightarrow> p \<notin> undeletable fs \<Longrightarrow> p \<notin> files (cleanupFile e fs p)"
  by (auto simp: cleanupFile_def cleanupFile_try_def unlink_def dest: prefix_temp_dir_nonempty)

lemma cleanupFile_untouched:
  "\<not> prefix (temp_dir e) p \<Longrightarrow> cleanupFile e fs p = fs"
  by (simp add: cleanupFile_def cleanupFile_try_def)

lemma cleanupFile_failed:
  "fst (cleanupFile_try e fs p) = Inl err \<Longrightarrow> cleanupFile e fs p = fs"
  by (simp add: cleanupFile_def)

lemma upload_route_response:
  "fst (upload_route e convert respond no_file fs file) =
     (case fst (upload_try convert respond no_file fs file) of
        Inl err \<Rightarrow> Inl (errorHandler e err) | Inr a \<Rightarrow> Inr a)"
  by (simp add: upload_route_def split: prod.splits)

lemma upload_route_deletes:
  "prefix (temp_dir e) (path f) \<Longrightarrow>
   path f \<notin> undeletable (snd (upload_try convert respond no_file fs (Some f))) \<Longrightarrow>
   path f \<notin> files (snd (upload_route e convert respond no_file fs (Some f)))"
  using cleanupFile_deletes by (auto simp: upload_route_def split: prod.splits)

lemma digit_chars:
  "char_of (48::nat) = CHR ''0''" "char_of (49::nat) = CHR ''1''"
  "char_of (50::nat) = CHR ''2''" "char_of (51::nat) = CHR ''3''"
  "char_of (52::nat) = CHR ''4''" "char_of (53::nat) = CHR ''5''"
  "char_of (54::nat) = CHR ''6''" "char_of (55::nat) = CHR ''7''"
  "char_of (56::nat) = CHR ''8''" "char_of (57::nat) = CHR ''9''"
  by code_simp+

lemma storage_filename_example:
  "storage_filename ''0b5e'' 1700000000000 ''report.docx'' = ''0b5e-1700000000000.docx''"
proof -
  have "show_nat 1700000000000 = ''1700000000000''"
    by (simp add: show_nat.simps digit_chars)
  moreover have "extname ''report.docx'' = ''.docx''"
    by code_simp
  ultimately show ?thesis
    by (simp add: storage_filename_def)
qed

text \<open>
  With the temporary directory left at its default, an upload is stored under that
  directory and is gone after the request.
\<close>

lemma default_upload_cleaned:
  "path (stored_upload sample_env ''0b5e'' 1700000000000 ''report.docx'') =
     ''/tmp/document-processing/0b5e-1700000000000.docx'' \<and>
   snd (upload_route sample_env (\<lambda>fs f. (Inr ''%PDF-1.4'', fs)) (\<lambda>f r. Inr r)
         ''No file uploaded''
         \<lparr>files = {''/tmp/document-processing/0b5e-1700000000000.docx''}, undeletable = {}\<rparr>
         (Some (stored_upload sample_env ''0b5e'' 1700000000000 ''report.docx''))) =
     \<lparr>files = {}, undeletable = {}\<rparr>"
proof -
  have t: "temp_dir sample_env = ''/tmp/document-processing''"
    by (simp add: temp_dir_def or_default_def sample_env_def)
  have j: "path_join ''/tmp/document-processing'' ''0b5e-1700000000000.docx'' =
      ''/tmp/document-processing/0b5e-1700000000000.docx''"
    by code_simp
  have p: "path (stored_upload sample_env ''0b5e'' 1700000000000 ''report.docx'') =
     ''/tmp/document-processing/0b5e-1700000000000.docx''"
    by (simp add: stored_upload_def storage_filename_example t j)
  show ?thesis
    by (simp add: p t upload_route_def upload_try_def cleanupFile_def cleanupFile_try_def
        unlink_def)
qed

text \<open>
  The guard of the cleanup compares strings: a file in a directory beside the temporary
  one, whose name merely starts with the same characters, is removed as well.
\<close>

lemma cleanupFile_sibling_directory:
  "cleanupFile sample_env
     \<lparr>files = {''/tmp/document-processing-evil/x.txt''}, undeletable = {}\<rparr>
     ''/tmp/document-processing-evil/x.txt'' = \<lparr>files = {}, undeletable = {}\<rparr>"
  by (simp add: cleanupFile_def cleanupFile_try_def unlink_def temp_dir_def or_default_def
      sample_env_def)

text \<open>
  C10. With \<open>TEMP_DIR=./uploads\<close> the upload of \<open>report.docx\<close> is stored at
  \<open>uploads/0b5e-1700000000000.docx\<close>, the join having dropped the leading \<open>./\<close>. That
  path does not start with \<open>./uploads\<close>, so the cleanup never calls \<open>unlink\<close>: the file
  is still there after the request, when the conversion succeeds and when it fails.
\<close>

theorem upload_not_cleaned:
  "path (stored_upload (sample_env\<lparr>TEMP_DIR := Some ''./uploads''\<rparr>)
      ''0b5e'' 1700000000000 ''report.docx'') = ''uploads/0b5e-1700000000000.docx'' \<and>
   snd (upload_route (sample_env\<lparr>TEMP_DIR := Some ''./uploads''\<rparr>)
         (\<lambda>fs f. (Inr ''%PDF-1.4'', fs)) (\<lambda>f r. Inr r) ''No file uploaded''
         \<lparr>files = {''uploads/0b5e-1700000000000.docx''}, undeletable = {}\<rparr>
         (Some (stored_upload (sample_env\<lparr>TEMP_DIR := Some ''./uploads''\<rparr>)
            ''0b5e'' 1700000000000 ''report.docx''))) =
     \<lparr>files = {''uploads/0b5e-1700000000000.docx''}, undeletable = {}\<rparr> \<and>
   snd (upload_route (sample_env\<lparr>TEMP_DIR := Some ''./uploads''\<rparr>)
         (\<lambda>fs f. (Inl (ConversionError ''Failed to convert'') :: js_error + string, fs))
         (\<lambda>f r. Inr r) ''No file uploaded''
         \<lparr>files = {''uploads/0b5e-1700000000000.docx''}, undeletable = {}\<rparr>
         (Some (stored_upload (sample_env\<lparr>TEMP_DIR := Some ''./uploads''\<rparr>)
            ''0b5e'' 1700000000000 ''report.docx''))) =
     \<lparr>files = {''uploads/0b5e-1700000000000.docx''}, undeletable = {}\<rparr> \<and>
   \<not> snd (cleanupFile_try (sample_env\<lparr>TEMP_DIR := Some ''./uploads''\<rparr>)
           \<lparr>files = {''uploads/0b5e-1700000000000.docx''}, undeletable = {}\<rparr>
           ''uploads/0b5e-1700000000000.docx'')"
proof -
  let ?e = "sample_env\<lparr>TEMP_DIR := Some ''./uploads''\<rparr>"
  have t: "temp_dir ?e = ''./uploads''"
    by (simp add: temp_dir_def or_default_def)
  have j: "path_join ''./uploads'' ''0b5e-1700000000000.docx'' =
      ''uploads/0b5e-1700000000000.docx''"
    by code_simp
  have p: "path (stored_upload ?e ''0b5e'' 1700000000000 ''report.docx'') =
     ''uploads/0b5e-1700000000000.docx''"
    by (simp add: stored_upload_def storage_filename_example t j)
  show ?thesis
    by (simp add: p t upload_route_def upload_try_def cleanupFile_def cleanupFile_try_def)
qed

end
